theory Spec2Isabelle
  imports
    Complex_Main
    "HOL-Library.Word"
    "HOL-Library.Char_ord"
    "HOL-Library.List_Lexorder"
    "HOL-Library.Multiset"
begin

unbundle bit_operations_syntax

section \<open>JavaScript strings, objects and values\<close>

text \<open>
  A JavaScript string is modelled as a \<^typ>\<open>string\<close> holding its UTF-8 bytes, so that
  \<open>Buffer.from(s)\<close> has \<open>length s\<close> bytes. With \<open>HOL-Library.Char_ord\<close> and
  \<open>HOL-Library.List_Lexorder\<close> strings are linearly ordered byte by byte, a proper
  prefix first: the order \<open>Array.prototype.sort()\<close> uses on the ASCII keys of the
  protocol.

  An object is an association list in the order \<open>Object.keys\<close> enumerates it; the keys of
  an object are distinct. \<open>obj[k] = v\<close> is \<open>setField\<close>: an existing key keeps its place,
  a new key goes to the end.
\<close>

text \<open>
  The white space that \<open>String.prototype.trim\<close> strips, each code point as its UTF-8
  bytes: the tab, the line feed, the vertical tab, the form feed, the carriage return
  and the space; U+00A0; U+1680; U+2000 to U+200A; the line and the paragraph
  separator U+2028 and U+2029; U+202F; U+205F; U+3000; and U+FEFF.
\<close>

definition whiteSpaceCodes :: "string list" where
  "whiteSpaceCodes =
     [[CHR 0x09], [CHR 0x0A], [CHR 0x0B], [CHR 0x0C], [CHR 0x0D], [CHR 0x20],
      [CHR 0xC2, CHR 0xA0],
      [CHR 0xE1, CHR 0x9A, CHR 0x80],
      [CHR 0xE2, CHR 0x80, CHR 0x80], [CHR 0xE2, CHR 0x80, CHR 0x81],
      [CHR 0xE2, CHR 0x80, CHR 0x82], [CHR 0xE2, CHR 0x80, CHR 0x83],
      [CHR 0xE2, CHR 0x80, CHR 0x84], [CHR 0xE2, CHR 0x80, CHR 0x85],
      [CHR 0xE2, CHR 0x80, CHR 0x86], [CHR 0xE2, CHR 0x80, CHR 0x87],
      [CHR 0xE2, CHR 0x80, CHR 0x88], [CHR 0xE2, CHR 0x80, CHR 0x89],
      [CHR 0xE2, CHR 0x80, CHR 0x8A],
      [CHR 0xE2, CHR 0x80, CHR 0xA8], [CHR 0xE2, CHR 0x80, CHR 0xA9],
      [CHR 0xE2, CHR 0x80, CHR 0xAF],
      [CHR 0xE2, CHR 0x81, CHR 0x9F],
      [CHR 0xE3, CHR 0x80, CHR 0x80],
      [CHR 0xEF, CHR 0xBB, CHR 0xBF]]"

text \<open>The first of the codes that the string starts with, if any.\<close>

definition whiteSpacePrefix :: "string list \<Rightarrow> string \<Rightarrow> string option" where
  "whiteSpacePrefix codes s = find (\<lambda>w. w \<noteq> [] \<and> take (length w) s = w) codes"

text \<open>The string without the white space it starts with.\<close>

function dropWhiteSpace :: "string list \<Rightarrow> string \<Rightarrow> string" where
  "dropWhiteSpace codes s =
     (case whiteSpacePrefix codes s of
        None \<Rightarrow> s
      | Some w \<Rightarrow> dropWhiteSpace codes (drop (length w) s))"
  by pat_completeness auto
termination
proof (relation "measure (\<lambda>(codes, s). length s)")
  show "wf (measure (\<lambda>(codes, s). length s))" by simp
next
  fix codes :: "string list" and s w :: string
  assume "whiteSpacePrefix codes s = Some w"
  then have "w \<noteq> []" and "take (length w) s = w"
    by (auto simp: whiteSpacePrefix_def find_Some_iff)
  then have "s \<noteq> []" and "0 < length w"
    by auto
  then show "((codes, drop (length w) s), (codes, s)) \<in> measure (\<lambda>(codes, s). length s)"
    by simp
qed

declare dropWhiteSpace.simps [simp del]

text \<open>
  \<open>String.prototype.trim\<close>: the white space is dropped at the start and, on the
  reversed bytes with the reversed codes, at the end.
\<close>

definition trim :: "string \<Rightarrow> string" where
  "trim s =
     rev (dropWhiteSpace (map rev whiteSpaceCodes) (rev (dropWhiteSpace whiteSpaceCodes s)))"

text \<open>\<open>Array.prototype.join\<close> on an array of strings.\<close>

fun join :: "string \<Rightarrow> string list \<Rightarrow> string" where
  "join sep [] = []"
| "join sep [x] = x"
| "join sep (x # y # ys) = x @ sep @ join sep (y # ys)"

text \<open>\<open>String.prototype.toUpperCase\<close>, on the ASCII letters: bit 5 of the byte is cleared.\<close>

definition toUpperCase :: "string \<Rightarrow> string" where
  "toUpperCase s =
     map (\<lambda>c. if CHR ''a'' \<le> c \<and> c \<le> CHR ''z''
              then (case c of Char b0 b1 b2 b3 b4 b5 b6 b7 \<Rightarrow> Char b0 b1 b2 b3 b4 False b6 b7)
              else c) s"

fun setField :: "'k \<Rightarrow> 'v \<Rightarrow> ('k \<times> 'v) list \<Rightarrow> ('k \<times> 'v) list" where
  "setField k v [] = [(k, v)]"
| "setField k v (p # ps) = (if fst p = k then (k, v) # ps else p # setField k v ps)"

section \<open>The crypto module\<close>

text \<open>
  Node's \<open>crypto\<close> module is not part of the repository. Its two digests are parameters
  of the model: \<open>createHashMd5 s\<close> is \<open>createHash('md5').update(s, 'utf8').digest()\<close>, a
  128-bit value, and \<open>createHmacSha256 key s\<close> is
  \<open>createHmac('sha256', key).update(s, 'utf8').digest()\<close>, a 256-bit value. Nothing is
  assumed about them.
\<close>

record crypto =
  createHashMd5 :: "string \<Rightarrow> 128 word"
  createHmacSha256 :: "8 word list \<Rightarrow> string \<Rightarrow> 256 word"

definition hexDigit :: "nat \<Rightarrow> char" where
  "hexDigit n = ''0123456789abcdef'' ! n"

text \<open>\<open>digest('hex')\<close>: two lower-case hexadecimal digits per byte, the first byte first.\<close>

definition digestHex :: "'a::len word \<Rightarrow> string" where
  "digestHex w =
     map (\<lambda>i. hexDigit (unat (drop_bit (4 * i) w AND 15))) (rev [0..<LENGTH('a) div 4])"

definition hexValue :: "char \<Rightarrow> nat option" where
  "hexValue c =
     (if CHR ''0'' \<le> c \<and> c \<le> CHR ''9'' then Some (of_char c - 48)
      else if CHR ''a'' \<le> c \<and> c \<le> CHR ''f'' then Some (of_char c - 87)
      else if CHR ''A'' \<le> c \<and> c \<le> CHR ''F'' then Some (of_char c - 55)
      else None)"

text \<open>
  \<open>Buffer.from(s, 'hex')\<close>: one byte per pair of hexadecimal digits; decoding stops at
  the first pair that is not one, and a single trailing character is dropped.
\<close>

fun bufferFromHex :: "string \<Rightarrow> 8 word list" where
  "bufferFromHex (a # b # rest) =
     (case hexValue a of
        None \<Rightarrow> []
      | Some x \<Rightarrow> (case hexValue b of
                    None \<Rightarrow> []
                  | Some y \<Rightarrow> of_nat (16 * x + y) # bufferFromHex rest))"
| "bufferFromHex _ = []"

text \<open>\<open>Buffer.from(s)\<close>: the UTF-8 bytes of the string.\<close>

definition bufferFrom :: "string \<Rightarrow> 8 word list" where
  "bufferFrom s = map (\<lambda>c. of_nat (of_char c)) s"

section \<open>The secure hash: \<open>utils/hash.util.ts\<close>\<close>

datatype VpcSecureHashType = MD5 | SHA256

type_synonym parameters = "(string \<times> string option) list"

text \<open>
  The body of the \<open>forEach\<close> of \<open>generateSecureHash\<close>: the entry that a key and its
  value add to \<open>filteredParams\<close>, if any. \<open>None\<close> as a value is \<open>null\<close>.
\<close>

definition filteredEntry :: "string \<times> string option \<Rightarrow> (string \<times> string) option" where
  "filteredEntry e =
     (case e of (key, val) \<Rightarrow>
        (case val of
           None \<Rightarrow> None
         | Some v \<Rightarrow>
             if key \<noteq> ''vpc_SecureHash'' \<and> key \<noteq> ''vpc_SecureHashType'' \<and> length (trim v) > 0
             then Some (key, trim v) else None))"

definition filteredParams :: "parameters \<Rightarrow> (string \<times> string) list" where
  "filteredParams ps = List.map_filter filteredEntry ps"

text \<open>
  \<open>filteredParams[key]\<close> as the callbacks of \<open>map\<close> read it. Every key of \<open>sortedKeys\<close>
  is a key of \<open>filteredParams\<close>, so the second case is never taken.
\<close>

definition getField :: "(string \<times> string) list \<Rightarrow> string \<Rightarrow> string" where
  "getField obj key = (case map_of obj key of Some v \<Rightarrow> v | None \<Rightarrow> [])"

definition generateSecureHash ::
  "crypto \<Rightarrow> parameters \<Rightarrow> string \<Rightarrow> VpcSecureHashType \<Rightarrow> string" where
  "generateSecureHash cr ps vpcSecureSecret hashType =
     (let fp = filteredParams ps;
          sortedKeys = sort (map fst fp)
      in case hashType of
           MD5 \<Rightarrow>
             (let valueString = join [] (map (getField fp) sortedKeys);
                  inputString = vpcSecureSecret @ valueString
              in toUpperCase (digestHex (createHashMd5 cr inputString)))
         | SHA256 \<Rightarrow>
             (let queryString = join ''&'' (map (\<lambda>key. key @ ''='' @ getField fp key) sortedKeys);
                  secretBytes = bufferFromHex vpcSecureSecret
              in toUpperCase (digestHex (createHmacSha256 cr secretBytes queryString))))"

text \<open>
  \<open>verifySecureHash\<close>: \<open>!providedHash\<close> holds for a missing field, for \<open>null\<close> and for
  the empty string.
\<close>

definition verifySecureHash ::
  "crypto \<Rightarrow> parameters \<Rightarrow> string \<Rightarrow> VpcSecureHashType \<Rightarrow> bool" where
  "verifySecureHash cr ps vpcSecureSecret hashType =
     (case map_of ps ''vpc_SecureHash'' of
        None \<Rightarrow> False
      | Some None \<Rightarrow> False
      | Some (Some providedHash) \<Rightarrow>
          if providedHash = [] then False
          else generateSecureHash cr ps vpcSecureSecret hashType = providedHash)"

text \<open>
  An entry that \<open>generateSecureHash\<close> skips for its value: the value is \<open>null\<close>, or
  empty after \<open>trim\<close>.
\<close>

definition blankValue :: "string \<times> string option \<Rightarrow> bool" where
  "blankValue e = (case snd e of None \<Rightarrow> True | Some v \<Rightarrow> trim v = [])"

section \<open>Values, exceptions and the transaction store\<close>

text \<open>
  The values of a parsed gateway response: a string or a number. Numbers are exact
  rationals; the rounding of IEEE doubles is not modelled.
\<close>

datatype jsval = JStr string | JNum rat

type_synonym response = "(string \<times> jsval) list"

text \<open>The truthiness of a property that may be absent (\<open>undefined\<close>).\<close>

fun truthy :: "jsval option \<Rightarrow> bool" where
  "truthy None = False"
| "truthy (Some (JStr s)) = (s \<noteq> [])"
| "truthy (Some (JNum n)) = (n \<noteq> 0)"

text \<open>\<open>String.prototype.includes\<close>.\<close>

fun includes_str :: "string \<Rightarrow> string \<Rightarrow> bool" where
  "includes_str [] sub = (sub = [])"
| "includes_str (c # cs) sub = (take (length sub) (c # cs) = sub \<or> includes_str cs sub)"

datatype exception =
    BadRequestException string
  | NotFoundException string
  | ServiceUnavailableException string
  | GatewayTimeoutException string
  | Error string
  | RangeError string

fun message :: "exception \<Rightarrow> string" where
  "message (BadRequestException m) = m"
| "message (NotFoundException m) = m"
| "message (ServiceUnavailableException m) = m"
| "message (GatewayTimeoutException m) = m"
| "message (Error m) = m"
| "message (RangeError m) = m"

text \<open>
  The \<open>status\<close> property of an exception: Nest's exception classes carry their HTTP
  status, a plain \<open>Error\<close> or \<open>RangeError\<close> has none.
\<close>

fun httpStatus :: "exception \<Rightarrow> nat option" where
  "httpStatus (BadRequestException m) = Some 400"
| "httpStatus (NotFoundException m) = Some 404"
| "httpStatus (ServiceUnavailableException m) = Some 503"
| "httpStatus (GatewayTimeoutException m) = Some 504"
| "httpStatus (Error m) = None"
| "httpStatus (RangeError m) = None"

datatype TransactionStatus =
  PENDING | SUCCESS | FAILED | CANCELLED | REFUNDED | PARTIALLY_REFUNDED

text \<open>
  A row of \<open>payment_transactions\<close>, with the columns of the migration; \<open>paymentId\<close>
  is the primary key \<open>id\<close>. Amounts are exact decimals, times are milliseconds since
  the epoch, \<open>None\<close> is \<open>NULL\<close>.
\<close>

record PaymentTransaction =
  paymentId :: string
  merchantTxnRef :: string
  transactionId :: "string option"
  orderInfo :: string
  amount :: rat
  currency :: string
  customerEmail :: "string option"
  customerPhone :: "string option"
  status :: TransactionStatus
  responseCode :: "string option"
  responseMessage :: "string option"
  authCode :: "string option"
  receiptNo :: "string option"
  batchNo :: "string option"
  returnUrl :: string
  clientIp :: "string option"
  vpcData :: "parameters option"
  gatewayResponse :: "parameters option"
  refundedAmount :: rat
  processedAt :: "nat option"
  createdAt :: nat
  updatedAt :: nat

type_synonym store = "PaymentTransaction list"

text \<open>\<open>findByPk\<close> and \<open>findOne({ where: { merchantTxnRef } })\<close>.\<close>

definition findByPk :: "store \<Rightarrow> string \<Rightarrow> PaymentTransaction option" where
  "findByPk db pk = find (\<lambda>t. paymentId t = pk) db"

definition findOneByRef :: "store \<Rightarrow> string \<Rightarrow> PaymentTransaction option" where
  "findOneByRef db ref = find (\<lambda>t. merchantTxnRef t = ref) db"

text \<open>
  \<open>instance.update(values)\<close>: the \<open>UPDATE ... WHERE id = pk\<close> of the row of the
  instance; Sequelize sets \<open>updatedAt\<close> as well.
\<close>

fun updateRow ::
  "string \<Rightarrow> (PaymentTransaction \<Rightarrow> PaymentTransaction) \<Rightarrow> store \<Rightarrow> store" where
  "updateRow pk f [] = []"
| "updateRow pk f (t # ts) = (if paymentId t = pk then f t # ts else t # updateRow pk f ts)"

text \<open>
  \<open>instance.reload()\<close>: the row of the instance as the store has it now. No operation
  deletes a row, so the row is there.
\<close>

definition reload :: "store \<Rightarrow> PaymentTransaction \<Rightarrow> PaymentTransaction" where
  "reload db t = (case findByPk db (paymentId t) of Some t' \<Rightarrow> t' | None \<Rightarrow> t)"

text \<open>
  \<open>update\<close> leaves out the properties whose value is \<open>undefined\<close>: \<open>setIfDefined\<close>
  keeps the old value of the column then. The outer \<open>None\<close> is \<open>undefined\<close>, the inner
  one \<open>null\<close>.
\<close>

definition setIfDefined :: "'a option option \<Rightarrow> 'a option \<Rightarrow> 'a option" where
  "setIfDefined new old = (case new of None \<Rightarrow> old | Some v \<Rightarrow> v)"

section \<open>The payment service: \<open>payment.service.ts\<close>\<close>

record MigsConfiguration =
  merchantId :: string
  accessCode :: string
  secureSecret :: string
  gatewayUrl :: string
  configCurrency :: string
  configReturnUrl :: string
  gatewayQueryUrl :: string

text \<open>
  What the service is constructed with: its configuration, the crypto module, and
  \<open>Number.prototype.toString\<close>, which is a parameter as well. \<open>vpcSecureAlgo\<close> is the
  constant of the class.
\<close>

record service =
  config :: MigsConfiguration
  cryptoModule :: crypto
  numberToString :: "rat \<Rightarrow> string"

definition vpcSecureAlgo :: VpcSecureHashType where
  "vpcSecureAlgo = SHA256"

fun hashTypeName :: "VpcSecureHashType \<Rightarrow> string" where
  "hashTypeName MD5 = ''MD5''"
| "hashTypeName SHA256 = ''SHA256''"

subsection \<open>\<open>processPaymentResponse\<close>\<close>

text \<open>
  The conditional of \<open>processPaymentResponse\<close> that determines the status from
  \<open>responseData.vpc_TxnResponseCode\<close>. The outer \<open>None\<close> is an absent property.
\<close>

definition callbackTransactionStatus :: "string option option \<Rightarrow> TransactionStatus" where
  "callbackTransactionStatus code = (if code = Some (Some ''0'') then SUCCESS else FAILED)"

text \<open>
  \<open>responseData\<close> is the query object of the callback request: its values are strings.
  \<open>now\<close> is the time of the call. The function returns the store after the call and
  either the exception it throws or the reloaded row. On an exception the database
  transaction is rolled back: the store is the one before the call. Sequelize rejects
  a \<open>where\<close> whose value is \<open>undefined\<close> with an \<open>Error\<close>.
\<close>

definition processPaymentResponse ::
  "service \<Rightarrow> nat \<Rightarrow> parameters \<Rightarrow> store \<Rightarrow> store \<times> (exception + PaymentTransaction)" where
  "processPaymentResponse sv now responseData db =
     (let isValidHash =
            verifySecureHash (cryptoModule sv) responseData (secureSecret (config sv)) vpcSecureAlgo
      in if \<not> isValidHash
         then (db, Inl (BadRequestException
                 ''Invalid secure hash - response integrity compromised''))
         else
           (case map_of responseData ''vpc_MerchTxnRef'' of
              None \<Rightarrow>
                (db, Inl (Error
                   ''WHERE parameter merchantTxnRef has invalid undefined value''))
            | Some None \<Rightarrow> (db, Inl (NotFoundException ''Transaction not found: null''))
            | Some (Some ref) \<Rightarrow>
                (case findOneByRef db ref of
                   None \<Rightarrow> (db, Inl (NotFoundException (''Transaction not found: '' @ ref)))
                 | Some paymentTransaction \<Rightarrow>
                     (let transactionStatus =
                            callbackTransactionStatus
                              (map_of responseData ''vpc_TxnResponseCode'');
                          db' = updateRow (paymentId paymentTransaction)
                            (\<lambda>t. t\<lparr>transactionId :=
                                     setIfDefined (map_of responseData ''vpc_TransactionNo'')
                                       (transactionId t),
                                   responseCode :=
                                     setIfDefined (map_of responseData ''vpc_TxnResponseCode'')
                                       (responseCode t),
                                   responseMessage :=
                                     setIfDefined (map_of responseData ''vpc_Message'')
                                       (responseMessage t),
                                   authCode :=
                                     setIfDefined (map_of responseData ''vpc_AuthorizeId'')
                                       (authCode t),
                                   receiptNo :=
                                     setIfDefined (map_of responseData ''vpc_ReceiptNo'')
                                       (receiptNo t),
                                   batchNo :=
                                     setIfDefined (map_of responseData ''vpc_BatchNo'')
                                       (batchNo t),
                                   gatewayResponse := Some responseData,
                                   processedAt := Some now,
                                   status := transactionStatus,
                                   updatedAt := now\<rparr>) db
                      in (db', Inr (reload db' paymentTransaction))))))"

subsection \<open>\<open>parseResponse\<close>\<close>

text \<open>
  \<open>new URLSearchParams(s)\<close>: a leading \<open>?\<close> is dropped, the string is split at
  \<open>&\<close>, empty pieces are skipped, each piece is split at its first \<open>=\<close>, and in name
  and value \<open>+\<close> becomes a space and \<open>%XX\<close> the byte \<open>XX\<close>.
\<close>

fun splitOn :: "char \<Rightarrow> string \<Rightarrow> string list" where
  "splitOn sep [] = [[]]"
| "splitOn sep (c # cs) =
     (if c = sep then [] # splitOn sep cs
      else (case splitOn sep cs of
              [] \<Rightarrow> [[c]]
            | piece # pieces \<Rightarrow> (c # piece) # pieces))"

definition plusToSpace :: "char \<Rightarrow> char" where
  "plusToSpace c = (if c = CHR ''+'' then CHR '' '' else c)"

fun percentDecode :: "string \<Rightarrow> string" where
  "percentDecode [] = []"
| "percentDecode [c] = [plusToSpace c]"
| "percentDecode [c, a] = [plusToSpace c, plusToSpace a]"
| "percentDecode (c # a # b # rest) =
     (if c = CHR ''%''
      then (case hexValue a of
              None \<Rightarrow> c # percentDecode (a # b # rest)
            | Some x \<Rightarrow>
                (case hexValue b of
                   None \<Rightarrow> c # percentDecode (a # b # rest)
                 | Some y \<Rightarrow> char_of (16 * x + y) # percentDecode rest))
      else plusToSpace c # percentDecode (a # b # rest))"

definition urlSearchParams :: "string \<Rightarrow> (string \<times> string) list" where
  "urlSearchParams s =
     map (\<lambda>piece. (percentDecode (takeWhile (\<lambda>c. c \<noteq> CHR ''='') piece),
                   percentDecode (drop 1 (dropWhile (\<lambda>c. c \<noteq> CHR ''='') piece))))
       (filter (\<lambda>piece. piece \<noteq> [])
          (splitOn (CHR ''&'') (if take 1 s = ''?'' then drop 1 s else s)))"

definition isDigit :: "char \<Rightarrow> bool" where
  "isDigit c = (CHR ''0'' \<le> c \<and> c \<le> CHR ''9'')"

text \<open>The regular expressions \<open>/^\d+$/\<close> and \<open>/^\d+\.\d+$/\<close>.\<close>

definition allDigits :: "string \<Rightarrow> bool" where
  "allDigits s = (s \<noteq> [] \<and> list_all isDigit s)"

definition digitsDotDigits :: "string \<Rightarrow> bool" where
  "digitsDotDigits s =
     (let whole = takeWhile isDigit s; rest = dropWhile isDigit s
      in whole \<noteq> [] \<and> take 1 rest = ''.'' \<and> allDigits (drop 1 rest))"

definition digitsValue :: "string \<Rightarrow> nat" where
  "digitsValue s = foldl (\<lambda>n c. 10 * n + (of_char c - 48)) 0 s"

text \<open>\<open>parseInt(value, 10)\<close> and \<open>parseFloat(value)\<close> on the strings the two tests accept.\<close>

definition parseInt :: "string \<Rightarrow> rat" where
  "parseInt s = of_nat (digitsValue s)"

definition parseFloat :: "string \<Rightarrow> rat" where
  "parseFloat s =
     (let whole = takeWhile isDigit s; fraction = drop 1 (dropWhile isDigit s)
      in of_nat (digitsValue whole) + of_nat (digitsValue fraction) / 10 ^ length fraction)"

definition parseValue :: "string \<Rightarrow> jsval" where
  "parseValue v =
     (if allDigits v then JNum (parseInt v)
      else if digitsDotDigits v then JNum (parseFloat v)
      else JStr v)"

definition parseResponse :: "string \<Rightarrow> response" where
  "parseResponse responseString =
     foldl (\<lambda>result (key, v). setField key (parseValue v) result) []
       (urlSearchParams responseString)"

subsection \<open>\<open>makeApiCall\<close>\<close>

text \<open>
  The gateway is a parameter of every call that reaches it: a function from the URL and
  the form fields posted to what the HTTP exchange gives, either a response (its
  status and its body, which axios hands over as a string, as the object parsed from
  JSON, or as \<open>null\<close>) or a failure without a response (the \<open>code\<close> and the
  \<open>message\<close> of the \<open>AxiosError\<close>).
\<close>

datatype responseBody = DataString string | DataObject response | DataNull

datatype exchange = HttpResponse nat responseBody | NoResponse string string

type_synonym gateway = "string \<Rightarrow> (string \<times> string) list \<Rightarrow> exchange"

text \<open>What the \<open>try\<close> block of \<open>makeApiCall\<close> can throw.\<close>

datatype thrown = AxiosError string string | Thrown exception

text \<open>The form fields: the entries whose value is neither \<open>null\<close> nor empty.\<close>

definition formData :: "parameters \<Rightarrow> (string \<times> string) list" where
  "formData data =
     List.map_filter
       (\<lambda>(key, val). case val of
                        None \<Rightarrow> None
                      | Some v \<Rightarrow> if v \<noteq> [] then Some (key, v) else None) data"

text \<open>
  \<open>axios.post\<close> with \<open>validateStatus: (status) => status < 500\<close>: a response whose
  status fails the test is thrown as an \<open>AxiosError\<close>.
\<close>

definition axiosPost ::
  "service \<Rightarrow> gateway \<Rightarrow> string \<Rightarrow> (string \<times> string) list \<Rightarrow> thrown + nat \<times> responseBody" where
  "axiosPost sv gw url form =
     (case gw url form of
        NoResponse code msg \<Rightarrow> Inl (AxiosError code msg)
      | HttpResponse st body \<Rightarrow>
          if st < 500 then Inr (st, body)
          else Inl (AxiosError ''ERR_BAD_RESPONSE''
                 (''Request failed with status code '' @ numberToString sv (of_nat st))))"

text \<open>The last part of the \<open>try\<close> block: what is returned for the body of a response.\<close>

definition responseOfBody :: "responseBody \<Rightarrow> response option" where
  "responseOfBody body =
     (case body of
        DataString s \<Rightarrow>
          if CHR ''='' \<in> set s \<and> (CHR ''&'' \<in> set s \<or> CHR '' '' \<notin> set s)
          then Some (parseResponse s)
          else Some [(''rawResponse'', JStr s)]
      | DataObject obj \<Rightarrow> Some obj
      | DataNull \<Rightarrow> None)"

definition makeApiCallTry :: "service \<Rightarrow> gateway \<Rightarrow> parameters \<Rightarrow> thrown + response option" where
  "makeApiCallTry sv gw data =
     (case axiosPost sv gw (gatewayQueryUrl (config sv)) (formData data) of
        Inl e \<Rightarrow> Inl e
      | Inr (st, body) \<Rightarrow>
          if st \<ge> 400
          then Inl (Thrown (ServiceUnavailableException
                 (''Gateway returned error status: '' @ numberToString sv (of_nat st))))
          else Inr (responseOfBody body))"

definition makeApiCall :: "service \<Rightarrow> gateway \<Rightarrow> parameters \<Rightarrow> exception + response option" where
  "makeApiCall sv gw data =
     (case makeApiCallTry sv gw data of
        Inr r \<Rightarrow> Inr r
      | Inl (AxiosError code msg) \<Rightarrow>
          if code = ''ECONNABORTED''
          then Inl (GatewayTimeoutException ''Gateway request timed out'')
          else if code = ''ENOTFOUND'' \<or> code = ''ECONNREFUSED''
          then Inl (ServiceUnavailableException ''Gateway service is not reachable'')
          else Inl (ServiceUnavailableException (''Gateway communication failed: '' @ msg))
      | Inl (Thrown e) \<Rightarrow>
          Inl (ServiceUnavailableException ''Unexpected error during gateway communication''))"

subsection \<open>\<open>processQueryResponse\<close>\<close>

text \<open>
  The response object is passed to \<open>verifySecureHash\<close> where a
  \<open>Record<string, string | null>\<close> and a \<open>VpcSecureHashType\<close> are declared:
  \<open>asParameters\<close> and \<open>asHashType\<close> are these two casts. The cast of a number and of
  an unknown algorithm name are choices of the model that no result depends on:
  \<open>dataForHash\<close> has no \<open>vpc_SecureHash\<close>, so \<open>verifySecureHash\<close> returns false before
  it reads a value or the algorithm. An absent algorithm is the default of the
  parameter, \<open>SHA256\<close>.
\<close>

definition asParameters :: "service \<Rightarrow> response \<Rightarrow> parameters" where
  "asParameters sv obj =
     map (\<lambda>(key, v). (key, case v of JStr s \<Rightarrow> Some s | JNum n \<Rightarrow> Some (numberToString sv n))) obj"

definition asHashType :: "jsval option \<Rightarrow> VpcSecureHashType" where
  "asHashType v = (if v = Some (JStr ''MD5'') then MD5 else SHA256)"

text \<open>
  \<open>makeApiCall\<close> never returns a string, so the test for a string response is not
  taken; the logging of the response code has no effect on the result.
\<close>

definition processQueryResponse :: "service \<Rightarrow> response option \<Rightarrow> exception + response" where
  "processQueryResponse sv r =
     (case r of
        None \<Rightarrow> Inl (ServiceUnavailableException ''Empty response received from gateway'')
      | Some resp \<Rightarrow>
          (let dataForHash =
                 filter (\<lambda>(key, v). key \<noteq> ''vpc_SecureHash'' \<and> key \<noteq> ''vpc_SecureHashType'') resp
           in if truthy (map_of resp ''vpc_SecureHash'')
                 \<and> \<not> verifySecureHash (cryptoModule sv) (asParameters sv dataForHash)
                       (secureSecret (config sv)) (asHashType (map_of resp ''vpc_SecureHashType''))
              then Inl (ServiceUnavailableException ''Response validation failed'')
              else Inr resp))"

subsection \<open>\<open>refundPayment\<close>\<close>

record RefundPaymentDto =
  refundPaymentId :: string
  refundAmount :: rat
  reason :: "string option"

fun statusName :: "TransactionStatus \<Rightarrow> string" where
  "statusName PENDING = ''pending''"
| "statusName SUCCESS = ''success''"
| "statusName FAILED = ''failed''"
| "statusName CANCELLED = ''cancelled''"
| "statusName REFUNDED = ''refunded''"
| "statusName PARTIALLY_REFUNDED = ''partially_refunded''"

text \<open>The request of a command, signed: the two assignments after \<open>generateSecureHash\<close>.\<close>

definition signed :: "service \<Rightarrow> parameters \<Rightarrow> parameters" where
  "signed sv vpcRequest =
     (let secureHash =
            generateSecureHash (cryptoModule sv) vpcRequest (secureSecret (config sv)) vpcSecureAlgo
      in setField ''vpc_SecureHashType'' (Some (hashTypeName vpcSecureAlgo))
           (setField ''vpc_SecureHash'' (Some secureHash) vpcRequest))"

text \<open>
  The \<open>try\<close> block of \<open>refundPayment\<close>. \<open>refundTxnRef\<close> is what \<open>generateRefundTxnRef\<close>
  returns for this call (it reads the clock and a fresh UUID), \<open>now\<close> the time of the
  call. The result is the exception thrown, or the store as the block leaves it and
  the reloaded row.
\<close>

definition refundPaymentTry ::
  "service \<Rightarrow> gateway \<Rightarrow> string \<Rightarrow> nat \<Rightarrow> RefundPaymentDto \<Rightarrow> store
     \<Rightarrow> exception + store \<times> PaymentTransaction" where
  "refundPaymentTry sv gw refundTxnRef now refundData db =
     (case findByPk db (refundPaymentId refundData) of
        None \<Rightarrow> Inl (NotFoundException (''Payment not found: '' @ refundPaymentId refundData))
      | Some paymentTransaction \<Rightarrow>
          if status paymentTransaction \<noteq> SUCCESS
          then Inl (BadRequestException
                 (''Payment not eligible for refund - current status: ''
                    @ statusName (status paymentTransaction)))
          else
            (let availableAmount = amount paymentTransaction - refundedAmount paymentTransaction
             in if refundAmount refundData > availableAmount
                then Inl (BadRequestException
                       (''Refund amount ('' @ numberToString sv (refundAmount refundData)
                          @ '') exceeds available amount ('' @ numberToString sv availableAmount
                          @ '')''))
                else
                  (let vpcRequest =
                         [(''vpc_Version'', Some ''1''),
                          (''vpc_Command'', Some ''refund''),
                          (''vpc_AccessCode'', Some (accessCode (config sv))),
                          (''vpc_MerchTxnRef'', Some refundTxnRef),
                          (''vpc_Merchant'', Some (merchantId (config sv))),
                          (''vpc_TransactionNo'', transactionId paymentTransaction),
                          (''vpc_TransNo'', transactionId paymentTransaction),
                          (''vpc_Amount'',
                             Some (numberToString sv (refundAmount refundData * 100)))]
                   in case makeApiCall sv gw (signed sv vpcRequest) of
                        Inl e \<Rightarrow> Inl e
                      | Inr r \<Rightarrow>
                          (case processQueryResponse sv r of
                             Inl e \<Rightarrow> Inl e
                           | Inr resp \<Rightarrow>
                               (let db' =
                                      (if map_of resp ''vpc_TxnResponseCode'' = Some (JStr ''0'')
                                       then
                                         (let newRefundedAmount =
                                                refundedAmount paymentTransaction
                                                  + refundAmount refundData;
                                              newStatus =
                                                (if newRefundedAmount \<ge> amount paymentTransaction
                                                 then REFUNDED else PARTIALLY_REFUNDED)
                                          in updateRow (paymentId paymentTransaction)
                                               (\<lambda>t. t\<lparr>refundedAmount := newRefundedAmount,
                                                      status := newStatus,
                                                      updatedAt := now\<rparr>) db)
                                       else db)
                                in Inr (db', reload db' paymentTransaction))))))"

text \<open>
  \<open>refundPayment\<close>: the \<open>catch\<close> rolls the database transaction back and throws one
  and the same \<open>BadRequestException\<close>, whatever was thrown.
\<close>

definition refundPayment ::
  "service \<Rightarrow> gateway \<Rightarrow> string \<Rightarrow> nat \<Rightarrow> RefundPaymentDto \<Rightarrow> store
     \<Rightarrow> store \<times> (exception + PaymentTransaction)" where
  "refundPayment sv gw refundTxnRef now refundData db =
     (case refundPaymentTry sv gw refundTxnRef now refundData db of
        Inr (db', t) \<Rightarrow> (db', Inr t)
      | Inl e \<Rightarrow> (db, Inl (BadRequestException ''Refund processing failed'')))"

text \<open>
  A sequence of refund calls, one after the other, each with its own reference, time,
  request and gateway behaviour; the results of the calls are dropped.
\<close>

fun refundCalls ::
  "service \<Rightarrow> (gateway \<times> string \<times> nat \<times> RefundPaymentDto) list \<Rightarrow> store \<Rightarrow> store" where
  "refundCalls sv [] db = db"
| "refundCalls sv ((gw, refundTxnRef, now, refundData) # calls) db =
     refundCalls sv calls (fst (refundPayment sv gw refundTxnRef now refundData db))"

subsection \<open>\<open>queryPaymentByTxnRef\<close>\<close>

text \<open>
  The argument is a string. \<open>buildPaymentUrl\<close> is called for a console message only.
  The store is read, not written.
\<close>

definition queryPaymentByTxnRef ::
  "service \<Rightarrow> gateway \<Rightarrow> string \<Rightarrow> store \<Rightarrow> exception + response" where
  "queryPaymentByTxnRef sv gw ref db =
     (if ref = []
      then Inl (BadRequestException
             ''Merchant Transaction Reference is required and must be a string'')
      else
        (let trimmedRef = trim ref
         in if length trimmedRef = 0
            then Inl (BadRequestException ''Merchant Transaction Reference cannot be empty'')
            else if length trimmedRef < 5 \<or> length trimmedRef > 50
            then Inl (BadRequestException ''Merchant Transaction Reference has invalid length'')
            else
              (case findOneByRef db trimmedRef of
                 None \<Rightarrow> Inl (NotFoundException ''Merchant Transaction Reference Id is Invalid'')
               | Some transaction \<Rightarrow>
                   (let vpcRequest =
                          [(''vpc_Version'', Some ''1''),
                           (''vpc_Command'', Some ''queryDR''),
                           (''vpc_AccessCode'', Some (accessCode (config sv))),
                           (''vpc_MerchTxnRef'', Some trimmedRef),
                           (''vpc_Merchant'', Some (merchantId (config sv))),
                           (''vpc_Locale'', Some ''en''),
                           (''vpc_Gateway'', Some ''ssl'')]
                    in case makeApiCall sv gw (signed sv vpcRequest) of
                         Inl e \<Rightarrow> Inl e
                       | Inr r \<Rightarrow> processQueryResponse sv r))))"

section \<open>The reconciliation worker: \<open>payment-status-sync.processor.ts\<close>\<close>

record SyncError =
  errorTxnRef :: string
  error :: string
  retryable :: bool

record SyncJobResult =
  processedCount :: nat
  updatedCount :: nat
  errorCount :: nat
  skippedCount :: nat
  processingTime :: int
  errors :: "SyncError list"

text \<open>
  \<open>mapGatewayStatusToLocal\<close>. The argument is the \<open>vpc_TxnResponseCode\<close> of the
  response object, whatever it holds (\<open>None\<close> when the property is absent); the
  \<open>switch\<close> compares with \<open>===\<close>, so only a string matches a \<open>case\<close>.
\<close>

definition mapGatewayStatusToLocal :: "jsval option \<Rightarrow> TransactionStatus option" where
  "mapGatewayStatusToLocal code =
     (if code = Some (JStr ''0'') then Some SUCCESS
      else if code \<in> set (map (\<lambda>c. Some (JStr c))
                [''1'', ''2'', ''3'', ''4'', ''5'', ''6'', ''7''])
      then Some FAILED
      else None)"

text \<open>
  \<open>isRetryableError\<close>. The exceptions of the model have no \<open>code\<close> property, so the
  first two tests are false.
\<close>

definition isRetryableError :: "exception \<Rightarrow> bool" where
  "isRetryableError e =
     (includes_str (message e) ''timeout''
      \<or> (case httpStatus e of None \<Rightarrow> False | Some st \<Rightarrow> st \<ge> 500))"

text \<open>
  A value of the response object as the string column stores it.
\<close>

definition columnValue :: "service \<Rightarrow> jsval \<Rightarrow> string" where
  "columnValue sv v = (case v of JStr s \<Rightarrow> s | JNum n \<Rightarrow> numberToString sv n)"

definition responseField :: "service \<Rightarrow> response \<Rightarrow> string \<Rightarrow> string option option" where
  "responseField sv resp key = map_option (\<lambda>v. Some (columnValue sv v)) (map_of resp key)"

text \<open>
  The body of the \<open>for\<close> loop, for one of the selected rows. \<open>transaction\<close> is the row
  as the selection read it. The progress report of the job and the pause of 100 ms are
  left out.
\<close>

definition syncTransaction ::
  "service \<Rightarrow> gateway \<Rightarrow> nat \<Rightarrow> PaymentTransaction \<Rightarrow> store \<times> SyncJobResult
     \<Rightarrow> store \<times> SyncJobResult" where
  "syncTransaction sv gw now transaction acc =
     (case acc of (db, res0) \<Rightarrow>
        (let res = res0\<lparr>processedCount := processedCount res0 + 1\<rparr>
         in case queryPaymentByTxnRef sv gw (merchantTxnRef transaction) db of
              Inl e \<Rightarrow>
                (db, res\<lparr>errorCount := errorCount res + 1,
                          errors := errors res @
                            [\<lparr>errorTxnRef = merchantTxnRef transaction,
                              error = message e,
                              retryable = isRetryableError e\<rparr>]\<rparr>)
            | Inr queryResponse \<Rightarrow>
                (case mapGatewayStatusToLocal (map_of queryResponse ''vpc_TxnResponseCode'') of
                   None \<Rightarrow> (db, res\<lparr>skippedCount := skippedCount res + 1\<rparr>)
                 | Some gatewayStatus \<Rightarrow>
                     if gatewayStatus \<noteq> status transaction
                     then
                       (updateRow (paymentId transaction)
                          (\<lambda>t. t\<lparr>status := gatewayStatus,
                                 responseCode :=
                                   setIfDefined
                                     (responseField sv queryResponse ''vpc_TxnResponseCode'')
                                     (responseCode t),
                                 responseMessage :=
                                   setIfDefined (responseField sv queryResponse ''vpc_Message'')
                                     (responseMessage t),
                                 transactionId :=
                                   setIfDefined
                                     (responseField sv queryResponse ''vpc_TransactionNo'')
                                     (transactionId t),
                                 authCode :=
                                   setIfDefined
                                     (responseField sv queryResponse ''vpc_AuthorizeId'')
                                     (authCode t),
                                 receiptNo :=
                                   setIfDefined (responseField sv queryResponse ''vpc_ReceiptNo'')
                                     (receiptNo t),
                                 processedAt := Some now,
                                 updatedAt := now\<rparr>) db,
                        res\<lparr>updatedCount := updatedCount res + 1\<rparr>)
                     else (db, res\<lparr>skippedCount := skippedCount res + 1\<rparr>))))"

text \<open>
  \<open>handlePaymentStatusSync\<close>. \<open>now\<close> is the clock of the run, \<open>endTime\<close> the clock when
  the result is built, \<open>batchSize\<close> the \<open>job.data.batchSize\<close> (\<open>None\<close> when absent).
  The selection is the \<open>findAll\<close>: the pending rows created more than five minutes
  before, oldest first, at most \<open>batchSize\<close> of them.
\<close>

definition pendingTransactions :: "nat \<Rightarrow> nat option \<Rightarrow> store \<Rightarrow> PaymentTransaction list" where
  "pendingTransactions now batchSize db =
     (let fiveMinutesAgo = int now - 5 * 60 * 1000;
          limit = (case batchSize of None \<Rightarrow> 50 | Some n \<Rightarrow> if n = 0 then 50 else n)
      in take limit
           (sort_key createdAt
              (filter (\<lambda>t. status t = PENDING \<and> int (createdAt t) < fiveMinutesAgo) db)))"

definition handlePaymentStatusSync ::
  "service \<Rightarrow> gateway \<Rightarrow> nat \<Rightarrow> nat \<Rightarrow> nat option \<Rightarrow> store \<Rightarrow> store \<times> SyncJobResult" where
  "handlePaymentStatusSync sv gw now endTime batchSize db =
     (case fold (syncTransaction sv gw now) (pendingTransactions now batchSize db)
             (db, \<lparr>processedCount = 0, updatedCount = 0, errorCount = 0, skippedCount = 0,
                    processingTime = 0, errors = []\<rparr>) of
        (db', res) \<Rightarrow> (db', res\<lparr>processingTime := int endTime - int now\<rparr>))"

section \<open>The Mashreq integration: \<open>meshreq.service.ts\<close>, \<open>payment.service.ts\<close>, \<open>webhook.controller.ts\<close>\<close>

text \<open>
  \<open>crypto.timingSafeEqual\<close> throws a \<open>RangeError\<close> when its two buffers differ in
  byte length, and compares them otherwise.
\<close>

definition timingSafeEqual :: "8 word list \<Rightarrow> 8 word list \<Rightarrow> exception + bool" where
  "timingSafeEqual a b =
     (if length a \<noteq> length b
      then Inl (RangeError ''Input buffers must have the same byte length'')
      else Inr (a = b))"

text \<open>
  \<open>verifyWebhookSignature\<close>. \<open>secret\<close> is the \<open>MASHREQ_WEBHOOK_SECRET\<close> of the
  configuration, a string, used as the key of the HMAC.
\<close>

definition verifyWebhookSignature ::
  "crypto \<Rightarrow> string \<Rightarrow> string \<Rightarrow> string \<Rightarrow> exception + bool" where
  "verifyWebhookSignature cr secret payload signature =
     (let expectedSignature = digestHex (createHmacSha256 cr (bufferFrom secret) payload)
      in timingSafeEqual (bufferFrom signature) (bufferFrom expectedSignature))"

datatype MashreqTransactionStatus =
    MASHREQ_PENDING
  | MASHREQ_PROCESSING
  | MASHREQ_SUCCESS
  | MASHREQ_FAILED
  | MASHREQ_CANCELLED
  | MASHREQ_REFUNDED

datatype TransactionType = CARD_PAYMENT | UTILITY_BILL | FUND_TRANSFER | APPLE_PAY | SAMSUNG_PAY

text \<open>
  The body of a webhook request, as far as the controller reads it: its
  \<open>transaction_id\<close> and its \<open>status\<close>, both strings.
\<close>

record WebhookPayload =
  payload_transaction_id :: string
  payload_status :: string

text \<open>
  A row of \<open>transactions\<close> (without its \<open>payment_details\<close> and its timestamps) and a
  row of the webhook log.
\<close>

record MashreqTransaction =
  transactionPk :: string
  order_id :: string
  mashreq_transaction_id :: "string option"
  transactionType :: TransactionType
  mashreq_status :: MashreqTransactionStatus
  mashreq_amount :: rat
  mashreq_currency :: string
  customer_email :: "string option"
  customer_id :: "string option"
  mashreq_response :: "WebhookPayload option"
  failure_reason :: "string option"
  redirect_url :: "string option"

record WebhookLog =
  transaction_id :: string
  payload :: WebhookPayload
  signature :: string
  processed :: bool

record webhookState =
  transactions :: "MashreqTransaction list"
  webhookLogs :: "WebhookLog list"

fun updateMashreqRow ::
  "string \<Rightarrow> (MashreqTransaction \<Rightarrow> MashreqTransaction) \<Rightarrow> MashreqTransaction list
     \<Rightarrow> MashreqTransaction list" where
  "updateMashreqRow pk f [] = []"
| "updateMashreqRow pk f (t # ts) =
     (if transactionPk t = pk then f t # ts else t # updateMashreqRow pk f ts)"

text \<open>
  \<open>updateTransactionStatus\<close> of the Mashreq payment service: the rows after the call,
  and the updated row, or \<open>None\<close> for the \<open>null\<close> it returns when no row has the
  Mashreq id.
\<close>

definition updateTransactionStatus ::
  "string \<Rightarrow> MashreqTransactionStatus \<Rightarrow> WebhookPayload option \<Rightarrow> MashreqTransaction list
     \<Rightarrow> MashreqTransaction list \<times> MashreqTransaction option" where
  "updateTransactionStatus transactionId' newStatus webhookData rows =
     (case find (\<lambda>t. mashreq_transaction_id t = Some transactionId') rows of
        None \<Rightarrow> (rows, None)
      | Some transaction \<Rightarrow>
          (let updated = transaction\<lparr>mashreq_status := newStatus,
                 mashreq_response :=
                   (case webhookData of
                      Some d \<Rightarrow> Some d
                    | None \<Rightarrow> mashreq_response transaction)\<rparr>
           in (updateMashreqRow (transactionPk transaction) (\<lambda>t. updated) rows, Some updated)))"

text \<open>The \<open>switch\<close> of the controller on \<open>payload.status\<close>.\<close>

definition internalStatus :: "string \<Rightarrow> MashreqTransactionStatus" where
  "internalStatus s =
     (if s = ''payment.succeeded'' \<or> s = ''transfer.completed'' \<or> s = ''bill.paid''
      then MASHREQ_SUCCESS
      else if s = ''payment.failed'' \<or> s = ''transfer.failed'' \<or> s = ''bill.failed''
      then MASHREQ_FAILED
      else if s = ''payment.cancelled'' then MASHREQ_CANCELLED
      else if s = ''payment.refunded'' then MASHREQ_REFUNDED
      else MASHREQ_PENDING)"

text \<open>The values of \<open>payload.status\<close> that the \<open>switch\<close> of the controller names.\<close>

definition recognizedStatuses :: "string list" where
  "recognizedStatuses =
     [''payment.succeeded'', ''transfer.completed'', ''bill.paid'', ''payment.failed'',
      ''transfer.failed'', ''bill.failed'', ''payment.cancelled'', ''payment.refunded'']"

datatype webhookReply = StatusOk | StatusError string

text \<open>
  \<open>handleMashreqWebhook\<close>. \<open>rawBody\<close> is \<open>req.rawBody\<close> as a string, \<open>None\<close> when the
  request has none. An exception of \<open>verifyWebhookSignature\<close> leaves the handler: the
  call is outside its \<open>try\<close>. Nothing in the \<open>try\<close> block throws in this model.
\<close>

definition handleMashreqWebhook ::
  "crypto \<Rightarrow> string \<Rightarrow> string option \<Rightarrow> string \<Rightarrow> WebhookPayload \<Rightarrow> webhookState
     \<Rightarrow> webhookState \<times> (exception + webhookReply)" where
  "handleMashreqWebhook cr secret rawBody sig body st =
     (case rawBody of
        None \<Rightarrow> (st, Inr (StatusError ''Missing raw body''))
      | Some rawBodys \<Rightarrow>
          (case verifyWebhookSignature cr secret rawBodys sig of
             Inl e \<Rightarrow> (st, Inl e)
           | Inr valid \<Rightarrow>
               if \<not> valid then (st, Inr (StatusError ''Invalid signature''))
               else
                 (let logs = webhookLogs st @
                        [\<lparr>transaction_id = payload_transaction_id body, payload = body,
                          signature = sig, processed = False\<rparr>];
                      rows = fst (updateTransactionStatus (payload_transaction_id body)
                                   (internalStatus (payload_status body)) (Some body)
                                   (transactions st));
                      logs' = map (\<lambda>l. if transaction_id l = payload_transaction_id body
                                         then l\<lparr>processed := True\<rparr> else l) logs
                  in (\<lparr>transactions = rows, webhookLogs = logs'\<rparr>, Inr StatusOk))))"

section \<open>Example data\<close>

text \<open>
  A service, gateways and rows for the closed instances of the theorems. The digests
  and the number printer of the example service are stand-ins (the number printer
  prints the integral part of a non-negative number): the theorems hold for every
  service.
\<close>

fun showNat :: "nat \<Rightarrow> string" where
  "showNat n = (if n < 10 then [hexDigit n] else showNat (n div 10) @ [hexDigit (n mod 10)])"

declare showNat.simps [simp del]

definition exampleCrypto :: crypto where
  "exampleCrypto =
     \<lparr>createHashMd5 = (\<lambda>s. of_nat (length s)),
      createHmacSha256 = (\<lambda>key s. of_nat (length key + length s))\<rparr>"

definition exampleService :: service where
  "exampleService =
     \<lparr>config = \<lparr>merchantId = ''TESTMERCHANT'', accessCode = ''ACCESS01'',
                 secureSecret = ''0A1B2C3D'', gatewayUrl = ''https://gateway.example/vpcpay'',
                 configCurrency = ''AED'', configReturnUrl = ''https://shop.example/callback'',
                 gatewayQueryUrl = ''https://gateway.example/vpcdps''\<rparr>,
      cryptoModule = exampleCrypto,
      numberToString = (\<lambda>n. showNat (nat \<lfloor>n\<rfloor>))\<rparr>"

text \<open>A gateway that answers every request with status 404 and a form-encoded body.\<close>

definition notFoundGateway :: gateway where
  "notFoundGateway url form =
     HttpResponse 404 (DataString ''vpc_TxnResponseCode=7&vpc_Message=Not+Found'')"

text \<open>A Mashreq card payment that has succeeded, and a webhook with a status of no \<open>case\<close>.\<close>

definition exampleMashreqTransaction :: MashreqTransaction where
  "exampleMashreqTransaction =
     \<lparr>transactionPk = ''7f3c'', order_id = ''ORDER-1'',
      mashreq_transaction_id = Some ''MTX-1'', transactionType = CARD_PAYMENT,
      mashreq_status = MASHREQ_SUCCESS, mashreq_amount = 100, mashreq_currency = ''AED'',
      customer_email = None, customer_id = None, mashreq_response = None,
      failure_reason = None, redirect_url = None\<rparr>"

definition exampleWebhookPayload :: WebhookPayload where
  "exampleWebhookPayload =
     \<lparr>payload_transaction_id = ''MTX-1'', payload_status = ''payment.disputed''\<rparr>"

definition exampleRawBody :: string where
  "exampleRawBody = ''{transaction_id:MTX-1,status:payment.disputed}''"

text \<open>
  A payment of 100.00 that has succeeded, created at time 0, and a gateway that
  approves every command with a JSON object.
\<close>

definition examplePayment :: PaymentTransaction where
  "examplePayment =
     \<lparr>paymentId = ''p-1'', merchantTxnRef = ''MIGS_1_ABCD1234'', transactionId = Some ''7001'',
      orderInfo = ''Order#1'', amount = 100, currency = ''AED'', customerEmail = None,
      customerPhone = None, status = SUCCESS, responseCode = Some ''0'',
      responseMessage = Some ''Approved'', authCode = None, receiptNo = None, batchNo = None,
      returnUrl = ''https://shop.example/callback'', clientIp = None, vpcData = None,
      gatewayResponse = None, refundedAmount = 0, processedAt = Some 1000, createdAt = 0,
      updatedAt = 1000\<rparr>"

text \<open>A payment as \<open>createPayment\<close> stores it, created at time 0 and still pending.\<close>

definition pendingPayment :: PaymentTransaction where
  "pendingPayment =
     \<lparr>paymentId = ''p-2'', merchantTxnRef = ''MIGS_2_EF567890'', transactionId = None,
      orderInfo = ''Order#2'', amount = 100, currency = ''AED'', customerEmail = None,
      customerPhone = None, status = PENDING, responseCode = None, responseMessage = None,
      authCode = None, receiptNo = None, batchNo = None,
      returnUrl = ''https://shop.example/callback'', clientIp = None, vpcData = None,
      gatewayResponse = None, refundedAmount = 0, processedAt = None, createdAt = 0,
      updatedAt = 0\<rparr>"

definition approvingGateway :: gateway where
  "approvingGateway url form =
     HttpResponse 200 (DataObject [(''vpc_TxnResponseCode'', JStr ''0'')])"

text \<open>A gateway that answers every request with a JSON object that reports the code 8.\<close>

definition unknownCodeGateway :: gateway where
  "unknownCodeGateway url form =
     HttpResponse 200 (DataObject [(''vpc_TxnResponseCode'', JStr ''8'')])"

text \<open>
  The callback of the gateway for the example payment with a response code, signed
  with the secret of the service.
\<close>

definition signedCallback :: "service \<Rightarrow> string \<Rightarrow> parameters" where
  "signedCallback sv code =
     signed sv [(''vpc_MerchTxnRef'', Some ''MIGS_1_ABCD1234''),
                (''vpc_TxnResponseCode'', Some code),
                (''vpc_Message'', Some ''Gateway message'')]"

text \<open>
  A gateway that answers every request with status 200 and a form-encoded body that
  reports the response code 0.
\<close>

definition formEncodedGateway :: gateway where
  "formEncodedGateway url form =
     HttpResponse 200 (DataString ''vpc_TxnResponseCode=0&vpc_Message=Approved'')"

section \<open>Properties of the secure hash\<close>

lemma length_digestHex: "length (digestHex (w :: 'a::len word)) = LENGTH('a) div 4"
  by (simp add: digestHex_def)

lemma generateSecureHash_nonempty: "generateSecureHash cr ps secret hashType \<noteq> []"
proof (cases hashType)
  case MD5
  have "length (generateSecureHash cr ps secret MD5) = 32"
    by (simp add: generateSecureHash_def Let_def toUpperCase_def length_digestHex)
  with MD5 show ?thesis by auto
next
  case SHA256
  have "length (generateSecureHash cr ps secret SHA256) = 64"
    by (simp add: generateSecureHash_def Let_def toUpperCase_def length_digestHex)
  with SHA256 show ?thesis by auto
qed

lemma filteredEntry_SecureHash: "filteredEntry (''vpc_SecureHash'', v) = None"
  by (simp add: filteredEntry_def split: option.splits)

lemma filteredParams_setField_SecureHash:
  "filteredParams (setField ''vpc_SecureHash'' v ps) = filteredParams ps"
proof (induction ps)
  case Nil
  show ?case
    by (simp add: filteredParams_def filteredEntry_SecureHash)
next
  case (Cons p ps)
  obtain k w where p: "p = (k, w)" by (cases p)
  show ?case
  proof (cases "k = ''vpc_SecureHash''")
    case True
    then show ?thesis
      using p by (simp add: filteredParams_def filteredEntry_SecureHash)
  next
    case False
    then show ?thesis
      using p Cons.IH
      by (simp add: filteredParams_def split: option.splits)
  qed
qed

lemma generateSecureHash_setField_SecureHash:
  "generateSecureHash cr (setField ''vpc_SecureHash'' v ps) secret hashType =
   generateSecureHash cr ps secret hashType"
  by (simp add: generateSecureHash_def filteredParams_setField_SecureHash)

lemma map_of_setField_same: "map_of (setField k v ps) k = Some v"
  by (induction ps) auto

text \<open>
  Claim C4. For every parameter object, every secret and both algorithms (MD5 and
  SHA256): when the signature computed by \<open>generateSecureHash\<close> is stored in the object
  as its \<open>vpc_SecureHash\<close> field, \<open>verifySecureHash\<close> with the same secret and algorithm
  returns true.
\<close>

theorem verifySecureHash_roundtrip:
  "verifySecureHash cr
     (setField ''vpc_SecureHash'' (Some (generateSecureHash cr ps secret hashType)) ps)
     secret hashType"
  by (simp add: verifySecureHash_def map_of_setField_same
      generateSecureHash_setField_SecureHash generateSecureHash_nonempty)

lemma filteredEntry_blank: "blankValue e \<Longrightarrow> filteredEntry e = None"
  by (cases e) (auto simp: blankValue_def filteredEntry_def split: option.splits)

lemma filteredEntry_key: "filteredEntry e = Some (k, v) \<Longrightarrow> k = fst e"
  by (cases e) (auto simp: filteredEntry_def split: option.splits if_splits)

lemma mset_map_filter:
  "mset (List.map_filter f xs) = image_mset (\<lambda>x. the (f x)) (filter_mset (\<lambda>x. f x \<noteq> None) (mset xs))"
  by (induction xs) (auto simp: split: option.splits)

lemma map_filter_all_None: "list_all (\<lambda>x. f x = None) xs \<Longrightarrow> List.map_filter f xs = []"
  by (induction xs) (auto simp:)

lemma mset_filteredParams:
  assumes "mset qs = mset ps + mset extra" and "list_all blankValue extra"
  shows "mset (filteredParams qs) = mset (filteredParams ps)"
proof -
  have "list_all (\<lambda>x. filteredEntry x = None) extra"
    using assms(2) by (induction extra) (auto simp: filteredEntry_blank)
  then have "filteredParams extra = []"
    unfolding filteredParams_def by (rule map_filter_all_None)
  then have e: "mset (filteredParams extra) = {#}" by simp
  have "mset (filteredParams qs) = mset (filteredParams ps) + mset (filteredParams extra)"
    unfolding filteredParams_def mset_map_filter assms(1) by simp
  with e show ?thesis by simp
qed

lemma map_fst_filteredParams:
  "map fst (filteredParams ps) = map fst (filter (\<lambda>e. filteredEntry e \<noteq> None) ps)"
proof (induction ps)
  case Nil
  show ?case by (simp add: filteredParams_def)
next
  case (Cons p ps)
  then show ?case
    by (auto simp: filteredParams_def dest: filteredEntry_key
        split: option.splits)
qed

lemma distinct_filteredParams:
  "distinct (map fst ps) \<Longrightarrow> distinct (map fst (filteredParams ps))"
  by (simp add: map_fst_filteredParams distinct_map_filter)

lemma sort_cong_mset:
  fixes xs ys :: "'a::linorder list"
  shows "mset xs = mset ys \<Longrightarrow> sort xs = sort ys"
  by (metis properties_for_sort mset_sort sorted_sort)

text \<open>
  Claim C8. The signature does not depend on the order of the entries of the parameter
  object, nor on extra entries whose value is \<open>null\<close>, empty or white space only: when
  the entries of \<open>qs\<close> are those of \<open>ps\<close> and of \<open>extra\<close> in any order, and every
  value of \<open>extra\<close> is blank, \<open>generateSecureHash\<close> returns for \<open>qs\<close> the string it
  returns for \<open>ps\<close>, with either algorithm. The keys of an object are distinct.
\<close>

theorem generateSecureHash_invariant:
  assumes d: "distinct (map fst qs)"
    and m: "mset qs = mset ps + mset extra"
    and b: "list_all blankValue extra"
  shows "generateSecureHash cr qs secret hashType = generateSecureHash cr ps secret hashType"
proof -
  have fm: "mset (filteredParams qs) = mset (filteredParams ps)"
    using m b by (rule mset_filteredParams)
  have dq: "distinct (map fst (filteredParams qs))"
    using d by (rule distinct_filteredParams)
  have km: "mset (map fst (filteredParams qs)) = mset (map fst (filteredParams ps))"
    using fm by (metis mset_map)
  have keys: "sort (map fst (filteredParams qs)) = sort (map fst (filteredParams ps))"
    using km by (rule sort_cong_mset)
  have dp: "distinct (map fst (filteredParams ps))"
    using mset_eq_imp_distinct_iff [OF km] dq by simp
  have "set (filteredParams qs) = set (filteredParams ps)"
    using fm by (rule mset_eq_setD)
  then have "map_of (filteredParams qs) = map_of (filteredParams ps)"
    using dq dp by (simp add: map_of_inject_set)
  then have fields: "getField (filteredParams qs) = getField (filteredParams ps)"
    by (simp add: getField_def fun_eq_iff)
  show ?thesis
    unfolding generateSecureHash_def Let_def keys fields by (rule refl)
qed

text \<open>
  An instance: the two entries of a request in the other order, with four extra entries
  whose values are \<open>null\<close>, empty, two spaces, and a no-break space (U+00A0) with a tab.
\<close>

theorem generateSecureHash_invariant_witness:
  "distinct (map fst
         [(''vpc_Merchant'', Some ''M1''), (''vpc_Note'', None),
          (''vpc_Amount'', Some '' 100 ''), (''vpc_Extra'', Some ''  ''),
          (''vpc_Nbsp'', Some [CHR 0xC2, CHR 0xA0, CHR 0x09]), (''vpc_Empty'', Some [])])
   \<and> mset
         [(''vpc_Merchant'', Some ''M1''), (''vpc_Note'', None),
          (''vpc_Amount'', Some '' 100 ''), (''vpc_Extra'', Some ''  ''),
          (''vpc_Nbsp'', Some [CHR 0xC2, CHR 0xA0, CHR 0x09]), (''vpc_Empty'', Some [])]
       = mset
         [(''vpc_Amount'', Some '' 100 ''), (''vpc_Merchant'', Some ''M1'')]
       + mset
         [(''vpc_Empty'', Some []), (''vpc_Extra'', Some ''  ''),
          (''vpc_Nbsp'', Some [CHR 0xC2, CHR 0xA0, CHR 0x09]), (''vpc_Note'', None)]
   \<and> list_all blankValue
         [(''vpc_Empty'', Some []), (''vpc_Extra'', Some ''  ''),
          (''vpc_Nbsp'', Some [CHR 0xC2, CHR 0xA0, CHR 0x09]), (''vpc_Note'', None)]
   \<and> generateSecureHash
         \<lparr>createHashMd5 = (\<lambda>s. of_nat (length s)),
          createHmacSha256 = (\<lambda>k s. of_nat (length k + length s))\<rparr>
         [(''vpc_Merchant'', Some ''M1''), (''vpc_Note'', None),
          (''vpc_Amount'', Some '' 100 ''), (''vpc_Extra'', Some ''  ''),
          (''vpc_Nbsp'', Some [CHR 0xC2, CHR 0xA0, CHR 0x09]), (''vpc_Empty'', Some [])]
         ''0A1B'' MD5
     = generateSecureHash
         \<lparr>createHashMd5 = (\<lambda>s. of_nat (length s)),
          createHmacSha256 = (\<lambda>k s. of_nat (length k + length s))\<rparr>
         [(''vpc_Amount'', Some '' 100 ''), (''vpc_Merchant'', Some ''M1'')]
         ''0A1B'' MD5"
proof -
  have d: "distinct (map fst
         [(''vpc_Merchant'', Some ''M1''), (''vpc_Note'', None),
          (''vpc_Amount'', Some '' 100 ''), (''vpc_Extra'', Some ''  ''),
          (''vpc_Nbsp'', Some [CHR 0xC2, CHR 0xA0, CHR 0x09]), (''vpc_Empty'', Some [])])"
    by simp
  have m: "mset
         [(''vpc_Merchant'', Some ''M1''), (''vpc_Note'', None),
          (''vpc_Amount'', Some '' 100 ''), (''vpc_Extra'', Some ''  ''),
          (''vpc_Nbsp'', Some [CHR 0xC2, CHR 0xA0, CHR 0x09]), (''vpc_Empty'', Some [])]
       = mset
         [(''vpc_Amount'', Some '' 100 ''), (''vpc_Merchant'', Some ''M1'')]
       + mset
         [(''vpc_Empty'', Some []), (''vpc_Extra'', Some ''  ''),
          (''vpc_Nbsp'', Some [CHR 0xC2, CHR 0xA0, CHR 0x09]), (''vpc_Note'', None)]"
    by simp
  have b: "list_all blankValue
         [(''vpc_Empty'', Some []), (''vpc_Extra'', Some ''  ''),
          (''vpc_Nbsp'', Some [CHR 0xC2, CHR 0xA0, CHR 0x09]), (''vpc_Note'', None)]"
    by (simp add: blankValue_def trim_def dropWhiteSpace.simps whiteSpacePrefix_def
        whiteSpaceCodes_def)
  show ?thesis
    using d m b generateSecureHash_invariant [OF d m b] by simp
qed

section \<open>Properties of the webhook signature\<close>

lemma length_bufferFrom: "length (bufferFrom s) = length s"
  by (simp add: bufferFrom_def)

lemma byte_of_char_inject:
  "(of_nat (of_char c) :: 8 word) = of_nat (of_char d) \<longleftrightarrow> c = d"
proof
  assume "(of_nat (of_char c) :: 8 word) = of_nat (of_char d)"
  then have "unat (of_nat (of_char c) :: 8 word) = unat (of_nat (of_char d) :: 8 word)"
    by simp
  moreover have "(of_char c :: nat) < 256" "(of_char d :: nat) < 256"
    by (simp_all add: of_char_def)
  ultimately have "(of_char c :: nat) = of_char d"
    by (simp add: unat_of_nat)
  then show "c = d" by simp
qed simp

lemma bufferFrom_inject: "bufferFrom a = bufferFrom b \<longleftrightarrow> a = b"
proof -
  have "inj (\<lambda>c. of_nat (of_char c) :: 8 word)"
    by (rule injI) (simp add: byte_of_char_inject)
  then show ?thesis
    by (auto simp: bufferFrom_def dest: inj_mapD [THEN injD])
qed

lemma verifyWebhookSignature_eq:
  "verifyWebhookSignature cr secret rawBody sig =
     (if length sig = 64
      then Inr (sig = digestHex (createHmacSha256 cr (bufferFrom secret) rawBody))
      else Inl (RangeError ''Input buffers must have the same byte length''))"
  by (simp add: verifyWebhookSignature_def timingSafeEqual_def Let_def length_bufferFrom
      length_digestHex bufferFrom_inject)

text \<open>
  Claim C10. \<open>verifyWebhookSignature\<close> returns a boolean exactly when the signature
  has 64 bytes, the length of the hexadecimal HMAC-SHA256 digest of the raw body, and
  the boolean tells whether the two are equal. For a signature of any other length
  \<open>crypto.timingSafeEqual\<close> throws, and the function throws with it: it does not
  return false.
\<close>

theorem verifyWebhookSignature_length:
  "length (digestHex (createHmacSha256 cr (bufferFrom secret) rawBody)) = 64
   \<and> verifyWebhookSignature cr secret rawBody sig =
       (if length sig = 64
        then Inr (sig = digestHex (createHmacSha256 cr (bufferFrom secret) rawBody))
        else Inl (RangeError ''Input buffers must have the same byte length''))"
  by (simp add: verifyWebhookSignature_eq length_digestHex)

section \<open>Properties of the gateway call\<close>

text \<open>
  Claim C7, as amended. When the gateway responds, \<open>makeApiCall\<close> returns the body
  as data only for a status below 400. For a status from 400 to 499 axios does not
  throw, but the function itself does, and what leaves it is a
  \<open>ServiceUnavailableException\<close>; for a status of 500 and more axios throws, and
  a \<open>ServiceUnavailableException\<close> leaves the function as well.
\<close>

theorem makeApiCall_by_status:
  assumes "gw (gatewayQueryUrl (config sv)) (formData req) = HttpResponse st body"
  shows "makeApiCall sv gw req =
     (if st < 400 then Inr (responseOfBody body)
      else if st < 500
      then Inl (ServiceUnavailableException ''Unexpected error during gateway communication'')
      else Inl (ServiceUnavailableException
             (''Gateway communication failed: Request failed with status code ''
                @ numberToString sv (of_nat st))))"
  using assms by (simp add: makeApiCall_def makeApiCallTry_def axiosPost_def)

theorem makeApiCall_by_status_witness:
  "notFoundGateway (gatewayQueryUrl (config exampleService))
       (formData [(''vpc_Command'', Some ''queryDR'')])
     = HttpResponse 404 (DataString ''vpc_TxnResponseCode=7&vpc_Message=Not+Found'')
   \<and> makeApiCall exampleService notFoundGateway [(''vpc_Command'', Some ''queryDR'')]
       = Inl (ServiceUnavailableException ''Unexpected error during gateway communication'')"
  using makeApiCall_by_status [of notFoundGateway exampleService
      "[(''vpc_Command'', Some ''queryDR'')]" 404
      "DataString ''vpc_TxnResponseCode=7&vpc_Message=Not+Found''"]
  by (simp add: notFoundGateway_def)

text \<open>
  The claim as stated fails for the status 404: the body is not returned, an
  exception is.
\<close>

theorem makeApiCall_404_throws:
  "makeApiCall exampleService notFoundGateway [(''vpc_Command'', Some ''queryDR'')]
   = Inl (ServiceUnavailableException ''Unexpected error during gateway communication'')"
  by (simp add: makeApiCall_def makeApiCallTry_def axiosPost_def notFoundGateway_def)

section \<open>Properties of the Mashreq webhook\<close>

lemma find_updateMashreqRow:
  "find (\<lambda>r. transactionPk r = pk) rows \<noteq> None \<Longrightarrow> transactionPk u = pk \<Longrightarrow>
   find (\<lambda>r. transactionPk r = pk) (updateMashreqRow pk (\<lambda>t. u) rows) = Some u"
  by (induction rows) auto

lemma find_Some_pk:
  "find P rows = Some t \<Longrightarrow> find (\<lambda>r. transactionPk r = transactionPk t) rows \<noteq> None"
  by (induction rows) (auto split: if_splits)

lemma internalStatus_unrecognized:
  "s \<notin> set recognizedStatuses \<Longrightarrow> internalStatus s = MASHREQ_PENDING"
  by (simp add: recognizedStatuses_def internalStatus_def)

text \<open>
  Claim C9. For a webhook with a raw body and a valid signature whose \<open>status\<close> is
  none of the values the \<open>switch\<close> names, \<open>handleMashreqWebhook\<close> maps the status
  to pending and writes it to the transaction that the \<open>transaction_id\<close> of the
  payload refers to, whatever the status of that transaction was: the row is not left
  as it is.
\<close>

theorem handleMashreqWebhook_unrecognized:
  assumes v: "verifyWebhookSignature cr secret raw sig = Inr True"
    and u: "payload_status body \<notin> set recognizedStatuses"
    and f: "find (\<lambda>t. mashreq_transaction_id t = Some (payload_transaction_id body))
              (transactions st) = Some t"
  shows "internalStatus (payload_status body) = MASHREQ_PENDING
     \<and> snd (handleMashreqWebhook cr secret (Some raw) sig body st) = Inr StatusOk
     \<and> find (\<lambda>r. transactionPk r = transactionPk t)
           (transactions (fst (handleMashreqWebhook cr secret (Some raw) sig body st)))
         = Some (t\<lparr>mashreq_status := MASHREQ_PENDING, mashreq_response := Some body\<rparr>)"
proof -
  have p: "internalStatus (payload_status body) = MASHREQ_PENDING"
    using u by (rule internalStatus_unrecognized)
  have "find (\<lambda>r. transactionPk r = transactionPk t) (transactions st) \<noteq> None"
    using f by (rule find_Some_pk)
  then have "find (\<lambda>r. transactionPk r = transactionPk t)
        (updateMashreqRow (transactionPk t)
           (\<lambda>r. t\<lparr>mashreq_status := MASHREQ_PENDING, mashreq_response := Some body\<rparr>)
           (transactions st))
      = Some (t\<lparr>mashreq_status := MASHREQ_PENDING, mashreq_response := Some body\<rparr>)"
    by (rule find_updateMashreqRow) simp
  then show ?thesis
    using v f p by (simp add: handleMashreqWebhook_def updateTransactionStatus_def Let_def)
qed

theorem handleMashreqWebhook_unrecognized_witness:
  "verifyWebhookSignature exampleCrypto ''whsec'' exampleRawBody
       (digestHex (createHmacSha256 exampleCrypto (bufferFrom ''whsec'') exampleRawBody))
     = Inr True
   \<and> payload_status exampleWebhookPayload \<notin> set recognizedStatuses
   \<and> find (\<lambda>t. mashreq_transaction_id t = Some (payload_transaction_id exampleWebhookPayload))
         (transactions \<lparr>transactions = [exampleMashreqTransaction], webhookLogs = []\<rparr>)
       = Some exampleMashreqTransaction
   \<and> mashreq_status exampleMashreqTransaction = MASHREQ_SUCCESS
   \<and> map mashreq_status
         (transactions (fst (handleMashreqWebhook exampleCrypto ''whsec'' (Some exampleRawBody)
            (digestHex (createHmacSha256 exampleCrypto (bufferFrom ''whsec'') exampleRawBody))
            exampleWebhookPayload
            \<lparr>transactions = [exampleMashreqTransaction], webhookLogs = []\<rparr>)))
       = [MASHREQ_PENDING]"
proof -
  let ?sig = "digestHex (createHmacSha256 exampleCrypto (bufferFrom ''whsec'') exampleRawBody)"
  let ?st = "\<lparr>transactions = [exampleMashreqTransaction], webhookLogs = []\<rparr>"
  have v: "verifyWebhookSignature exampleCrypto ''whsec'' exampleRawBody ?sig = Inr True"
    by (simp add: verifyWebhookSignature_eq length_digestHex)
  have u: "payload_status exampleWebhookPayload \<notin> set recognizedStatuses"
    by (simp add: exampleWebhookPayload_def recognizedStatuses_def)
  have f: "find (\<lambda>t. mashreq_transaction_id t = Some (payload_transaction_id exampleWebhookPayload))
         (transactions ?st) = Some exampleMashreqTransaction"
    by (simp add: exampleWebhookPayload_def exampleMashreqTransaction_def)
  have s: "mashreq_status exampleMashreqTransaction = MASHREQ_SUCCESS"
    by (simp add: exampleMashreqTransaction_def)
  have r: "transactions (fst (handleMashreqWebhook exampleCrypto ''whsec'' (Some exampleRawBody)
            ?sig exampleWebhookPayload ?st))
       = [exampleMashreqTransaction\<lparr>mashreq_status := MASHREQ_PENDING,
            mashreq_response := Some exampleWebhookPayload\<rparr>]"
    using handleMashreqWebhook_unrecognized [OF v u f] v
    by (simp add: handleMashreqWebhook_def updateTransactionStatus_def Let_def
        exampleWebhookPayload_def exampleMashreqTransaction_def internalStatus_def)
  show ?thesis
    using v u f s r by simp
qed

section \<open>Properties of the refund\<close>

lemma findByPk_paymentId: "findByPk db pk = Some t \<Longrightarrow> paymentId t = pk"
  by (auto simp: findByPk_def find_Some_iff)

lemma updateRow_list_all:
  "list_all Q db \<Longrightarrow> (\<And>t. findByPk db pk = Some t \<Longrightarrow> Q (f t)) \<Longrightarrow>
   list_all Q (updateRow pk f db)"
  by (induction db) (auto simp: findByPk_def)

lemma refundPaymentTry_within_amount:
  assumes inv: "list_all (\<lambda>t. refundedAmount t \<le> amount t) db"
    and ok: "refundPaymentTry sv gw ref now rd db = Inr (db', t')"
  shows "list_all (\<lambda>t. refundedAmount t \<le> amount t) db'"
proof (cases "findByPk db (refundPaymentId rd)")
  case None
  with ok show ?thesis by (simp add: refundPaymentTry_def)
next
  case (Some pt)
  then have pk: "paymentId pt = refundPaymentId rd"
    by (rule findByPk_paymentId)
  have st: "status pt = SUCCESS"
    using ok Some by (auto simp: refundPaymentTry_def split: if_splits)
  have le: "refundAmount rd \<le> amount pt - refundedAmount pt"
    using ok Some st by (auto simp: refundPaymentTry_def Let_def split: if_splits)
  have upd: "list_all (\<lambda>t. refundedAmount t \<le> amount t)
      (updateRow (paymentId pt) (\<lambda>t. t\<lparr>refundedAmount := refundedAmount pt + refundAmount rd,
          status := s, updatedAt := now\<rparr>) db)" for s
  proof (rule updateRow_list_all [OF inv])
    fix t assume "findByPk db (paymentId pt) = Some t"
    with Some pk have "t = pt" by simp
    with le show "refundedAmount (t\<lparr>refundedAmount := refundedAmount pt + refundAmount rd,
        status := s, updatedAt := now\<rparr>)
      \<le> amount (t\<lparr>refundedAmount := refundedAmount pt + refundAmount rd,
        status := s, updatedAt := now\<rparr>)"
      by simp
  qed
  show ?thesis
    using ok Some st le inv upd
    by (auto simp: refundPaymentTry_def Let_def split: if_splits sum.splits)
qed

lemma refundPayment_within_amount:
  "list_all (\<lambda>t. refundedAmount t \<le> amount t) db \<Longrightarrow>
   list_all (\<lambda>t. refundedAmount t \<le> amount t) (fst (refundPayment sv gw ref now rd db))"
  by (auto simp: refundPayment_def split: sum.splits dest: refundPaymentTry_within_amount)

lemma refundCalls_within_amount:
  "list_all (\<lambda>t. refundedAmount t \<le> amount t) db \<Longrightarrow>
   list_all (\<lambda>t. refundedAmount t \<le> amount t) (refundCalls sv calls db)"
proof (induction calls arbitrary: db)
  case Nil
  then show ?case by simp
next
  case (Cons call calls)
  obtain gw ref now rd where c: "call = (gw, ref, now, rd)"
    by (cases call) auto
  show ?case
    using Cons.prems by (simp add: c Cons.IH refundPayment_within_amount)
qed

lemma refundPayment_exceeding:
  assumes "findByPk db (refundPaymentId rd) = Some t"
    and "refundAmount rd > amount t - refundedAmount t"
  shows "refundPayment sv gw ref now rd db
     = (db, Inl (BadRequestException ''Refund processing failed''))"
  using assms by (simp add: refundPayment_def refundPaymentTry_def Let_def)

text \<open>
  Claim C3. When no row of the store has refunded more than its amount, no sequence of
  \<open>refundPayment\<close> calls, whatever their requests and whatever the gateway answers,
  leads to a row that has. A call that asks for more than \<open>amount - refundedAmount\<close>
  of its payment fails with a \<open>BadRequestException\<close>, the validation error of HTTP
  status 400, and leaves the store as it was.
\<close>

theorem refund_within_amount:
  "(list_all (\<lambda>t. refundedAmount t \<le> amount t) db \<longrightarrow>
      list_all (\<lambda>t. refundedAmount t \<le> amount t) (refundCalls sv calls db))
   \<and> (findByPk db (refundPaymentId rd) = Some t \<and> refundAmount rd > amount t - refundedAmount t \<longrightarrow>
        refundPayment sv gw ref now rd db
          = (db, Inl (BadRequestException ''Refund processing failed'')))"
  by (simp add: refundCalls_within_amount refundPayment_exceeding)

theorem refund_within_amount_witness:
  "list_all (\<lambda>t. refundedAmount t \<le> amount t) [examplePayment]
   \<and> list_all (\<lambda>t. refundedAmount t \<le> amount t)
         (refundCalls exampleService
            [(approvingGateway, ''REF_1'', 2000,
                \<lparr>refundPaymentId = ''p-1'', refundAmount = 40, reason = None\<rparr>),
             (approvingGateway, ''REF_2'', 3000,
                \<lparr>refundPaymentId = ''p-1'', refundAmount = 70, reason = None\<rparr>)]
            [examplePayment])
   \<and> findByPk [examplePayment]
         (refundPaymentId \<lparr>refundPaymentId = ''p-1'', refundAmount = 150, reason = None\<rparr>)
       = Some examplePayment
   \<and> refundAmount \<lparr>refundPaymentId = ''p-1'', refundAmount = 150, reason = None\<rparr>
       > amount examplePayment - refundedAmount examplePayment
   \<and> refundPayment exampleService approvingGateway ''REF_3'' 4000
         \<lparr>refundPaymentId = ''p-1'', refundAmount = 150, reason = None\<rparr> [examplePayment]
       = ([examplePayment], Inl (BadRequestException ''Refund processing failed''))"
proof -
  have i: "list_all (\<lambda>t. refundedAmount t \<le> amount t) [examplePayment]"
    by (simp add: examplePayment_def)
  have f: "findByPk [examplePayment]
         (refundPaymentId \<lparr>refundPaymentId = ''p-1'', refundAmount = 150, reason = None\<rparr>)
       = Some examplePayment"
    by (simp add: findByPk_def examplePayment_def)
  have a: "refundAmount \<lparr>refundPaymentId = ''p-1'', refundAmount = 150, reason = None\<rparr>
       > amount examplePayment - refundedAmount examplePayment"
    by (simp add: examplePayment_def)
  show ?thesis
    using i f a
      refund_within_amount [of "[examplePayment]" exampleService
        "[(approvingGateway, ''REF_1'', 2000,
             \<lparr>refundPaymentId = ''p-1'', refundAmount = 40, reason = None\<rparr>),
          (approvingGateway, ''REF_2'', 3000,
             \<lparr>refundPaymentId = ''p-1'', refundAmount = 70, reason = None\<rparr>)]"
        "\<lparr>refundPaymentId = ''p-1'', refundAmount = 150, reason = None\<rparr>"
        examplePayment approvingGateway "''REF_3''" 4000]
    by blast
qed

lemmas refund_simps =
  refundPayment_def refundPaymentTry_def Let_def findByPk_def examplePayment_def
  makeApiCall_def makeApiCallTry_def axiosPost_def approvingGateway_def responseOfBody_def
  processQueryResponse_def reload_def

text \<open>
  Claim C2, at the input where the code departs from it. The claim has a refund
  accepted from the status partially refunded. \<open>refundPayment\<close> rejects it, for
  every service and gateway: the payment of 100.00 with 40.00 refunded cannot be
  refunded the remaining 60.00. And of the two refunds of the scenario, 40.00 and then
  60.00 of a successful payment of 100.00, each approved by the gateway, only
  the first is recorded: the payment ends partially refunded with 40.00, not refunded
  with 100.00.
\<close>

theorem refundPayment_rejects_partially_refunded:
  "refundPayment sv gw ref now \<lparr>refundPaymentId = ''p-1'', refundAmount = 60, reason = None\<rparr>
       [examplePayment\<lparr>status := PARTIALLY_REFUNDED, refundedAmount := 40\<rparr>]
     = ([examplePayment\<lparr>status := PARTIALLY_REFUNDED, refundedAmount := 40\<rparr>],
        Inl (BadRequestException ''Refund processing failed''))
   \<and> refundCalls sv
       [(approvingGateway, ''REF_1'', 2000,
           \<lparr>refundPaymentId = ''p-1'', refundAmount = 40, reason = None\<rparr>),
        (approvingGateway, ''REF_2'', 3000,
           \<lparr>refundPaymentId = ''p-1'', refundAmount = 60, reason = None\<rparr>)]
       [examplePayment]
     = [examplePayment\<lparr>refundedAmount := 40, status := PARTIALLY_REFUNDED,
          updatedAt := 2000\<rparr>]"
  by (simp add: refund_simps)

section \<open>Properties of the callback\<close>

lemma verifySecureHash_signed:
  "verifySecureHash (cryptoModule sv) (signed sv ps) (secureSecret (config sv)) vpcSecureAlgo"
proof -
  have "filteredParams (setField ''vpc_SecureHashType'' v qs) = filteredParams qs" for v qs
  proof (induction qs)
    case Nil
    show ?case by (simp add: filteredParams_def filteredEntry_def split: option.splits)
  next
    case (Cons q qs)
    then show ?case
      by (cases q) (auto simp: filteredParams_def filteredEntry_def split: option.splits)
  qed
  then have g: "generateSecureHash cr (setField ''vpc_SecureHashType'' v qs) s h
      = generateSecureHash cr qs s h" for cr v qs s h
    by (simp add: generateSecureHash_def)
  have m: "map_of (setField k v qs) k' = map_of qs k'" if "k \<noteq> k'" for k k' v
    and qs :: "(string \<times> string option) list"
    using that by (induction qs) auto
  show ?thesis
    by (simp add: verifySecureHash_def signed_def Let_def g m map_of_setField_same
        generateSecureHash_setField_SecureHash generateSecureHash_nonempty)
qed

lemma map_of_signed:
  "k \<noteq> ''vpc_SecureHash'' \<Longrightarrow> k \<noteq> ''vpc_SecureHashType'' \<Longrightarrow>
   map_of (signed sv ps) k = map_of ps k"
proof -
  have m: "map_of (setField k v qs) k' = map_of qs k'" if "k \<noteq> k'" for k k' v
    and qs :: "(string \<times> string option) list"
    using that by (induction qs) auto
  assume "k \<noteq> ''vpc_SecureHash''" "k \<noteq> ''vpc_SecureHashType''"
  then show ?thesis
    by (simp add: signed_def Let_def m)
qed

lemmas callback_simps =
  processPaymentResponse_def Let_def verifySecureHash_signed signedCallback_def map_of_signed
  findOneByRef_def findByPk_def reload_def examplePayment_def callbackTransactionStatus_def
  setIfDefined_def

text \<open>
  Claim C1, at the input where the code departs from it. The claim has a validly
  signed callback for a refunded or cancelled payment rejected. For every service,
  \<open>processPaymentResponse\<close> accepts it: the callback with code 0 sets the refunded
  payment to success, and the callback with code 5 sets the cancelled payment to
  failed.
\<close>

theorem processPaymentResponse_reopens_terminal:
  "processPaymentResponse sv now (signedCallback sv ''0'')
       [examplePayment\<lparr>status := REFUNDED, refundedAmount := 100\<rparr>]
     = ([examplePayment\<lparr>status := SUCCESS, refundedAmount := 100, responseCode := Some ''0'',
            responseMessage := Some ''Gateway message'',
            gatewayResponse := Some (signedCallback sv ''0''), processedAt := Some now,
            updatedAt := now\<rparr>],
        Inr (examplePayment\<lparr>status := SUCCESS, refundedAmount := 100, responseCode := Some ''0'',
            responseMessage := Some ''Gateway message'',
            gatewayResponse := Some (signedCallback sv ''0''), processedAt := Some now,
            updatedAt := now\<rparr>))
   \<and> processPaymentResponse sv now (signedCallback sv ''5'')
       [examplePayment\<lparr>status := CANCELLED\<rparr>]
     = ([examplePayment\<lparr>status := FAILED, responseCode := Some ''5'',
            responseMessage := Some ''Gateway message'',
            gatewayResponse := Some (signedCallback sv ''5''), processedAt := Some now,
            updatedAt := now\<rparr>],
        Inr (examplePayment\<lparr>status := FAILED, responseCode := Some ''5'',
            responseMessage := Some ''Gateway message'',
            gatewayResponse := Some (signedCallback sv ''5''), processedAt := Some now,
            updatedAt := now\<rparr>))"
  by (simp add: callback_simps)

section \<open>Properties of the reconciliation worker\<close>

lemma parseResponse_formEncoded:
  "parseResponse ''vpc_TxnResponseCode=0&vpc_Message=Approved''
   = [(''vpc_TxnResponseCode'', JNum 0), (''vpc_Message'', JStr ''Approved'')]"
  by (simp add: parseResponse_def urlSearchParams_def parseValue_def allDigits_def isDigit_def
      digitsDotDigits_def parseInt_def digitsValue_def plusToSpace_def)

lemma trim_example: "trim ''MIGS_2_EF567890'' = ''MIGS_2_EF567890''"
  by (simp add: trim_def dropWhiteSpace.simps whiteSpacePrefix_def whiteSpaceCodes_def)

text \<open>
  When the response object holds the code as the string \<open>0\<close>, as an object parsed
  from JSON does, the run updates the payment.
\<close>

lemma handlePaymentStatusSync_string_code:
  "handlePaymentStatusSync sv approvingGateway 360000 360200 None [pendingPayment]
     = ([pendingPayment\<lparr>status := SUCCESS, responseCode := Some ''0'',
           processedAt := Some 360000, updatedAt := 360000\<rparr>],
        \<lparr>processedCount = 1, updatedCount = 1, errorCount = 0, skippedCount = 0,
          processingTime = 200, errors = []\<rparr>)"
  by (simp add: handlePaymentStatusSync_def pendingTransactions_def syncTransaction_def
      queryPaymentByTxnRef_def trim_example findOneByRef_def pendingPayment_def Let_def
      makeApiCall_def makeApiCallTry_def axiosPost_def approvingGateway_def responseOfBody_def
      processQueryResponse_def mapGatewayStatusToLocal_def responseField_def columnValue_def
      setIfDefined_def)

text \<open>
  Claim C6, at the input where the code departs from it. The claim has the worker set
  a stale pending payment to success when the gateway reports the code 0. The
  gateway answers in the form encoding, \<open>parseResponse\<close> turns the code into the
  number 0, and \<open>mapGatewayStatusToLocal\<close>, which compares with the string, has no
  status for it: for every service the run, six minutes after the payment was
  created, leaves it pending, with \<open>updatedCount = 0\<close> and \<open>skippedCount = 1\<close>.
\<close>

theorem handlePaymentStatusSync_skips_code_0:
  "handlePaymentStatusSync sv formEncodedGateway 360000 360200 None [pendingPayment]
     = ([pendingPayment],
        \<lparr>processedCount = 1, updatedCount = 0, errorCount = 0, skippedCount = 1,
          processingTime = 200, errors = []\<rparr>)"
  by (simp add: handlePaymentStatusSync_def pendingTransactions_def syncTransaction_def
      queryPaymentByTxnRef_def trim_example findOneByRef_def pendingPayment_def Let_def
      makeApiCall_def makeApiCallTry_def axiosPost_def formEncodedGateway_def responseOfBody_def
      parseResponse_formEncoded processQueryResponse_def mapGatewayStatusToLocal_def)

section \<open>Properties of the status mapping\<close>

text \<open>
  Claim C5, as amended. For the response codes \<open>0\<close> to \<open>7\<close> the worker's
  \<open>mapGatewayStatusToLocal\<close> gives the status that \<open>processPaymentResponse\<close> sets for
  the code (\<open>0\<close> is success, \<open>1\<close> to \<open>7\<close> failed). For every other code the worker
  gives no status, while \<open>processPaymentResponse\<close> sets failed; and when the query of
  the gateway returns a response with such a code, the step of the worker for the
  transaction leaves the store as it is and counts the transaction as skipped.
\<close>

theorem mapGatewayStatusToLocal_table:
  "mapGatewayStatusToLocal (Some (JStr c)) =
     (if c \<in> set [''0'', ''1'', ''2'', ''3'', ''4'', ''5'', ''6'', ''7'']
      then Some (callbackTransactionStatus (Some (Some c)))
      else None)
   \<and> callbackTransactionStatus (Some (Some c)) = (if c = ''0'' then SUCCESS else FAILED)
   \<and> (queryPaymentByTxnRef sv gw (merchantTxnRef t) db = Inr resp
        \<and> map_of resp ''vpc_TxnResponseCode'' = Some (JStr c)
        \<and> c \<notin> set [''0'', ''1'', ''2'', ''3'', ''4'', ''5'', ''6'', ''7'']
      \<longrightarrow> syncTransaction sv gw now t (db, res)
            = (db, res\<lparr>processedCount := processedCount res + 1,
                        skippedCount := skippedCount res + 1\<rparr>))"
proof -
  have m: "mapGatewayStatusToLocal (Some (JStr c)) =
     (if c \<in> set [''0'', ''1'', ''2'', ''3'', ''4'', ''5'', ''6'', ''7'']
      then Some (callbackTransactionStatus (Some (Some c)))
      else None)"
    by (auto simp: mapGatewayStatusToLocal_def callbackTransactionStatus_def)
  have s: "syncTransaction sv gw now t (db, res)
            = (db, res\<lparr>processedCount := processedCount res + 1,
                        skippedCount := skippedCount res + 1\<rparr>)"
    if "queryPaymentByTxnRef sv gw (merchantTxnRef t) db = Inr resp"
      and "map_of resp ''vpc_TxnResponseCode'' = Some (JStr c)"
      and "c \<notin> set [''0'', ''1'', ''2'', ''3'', ''4'', ''5'', ''6'', ''7'']"
    using that m by (simp add: syncTransaction_def Let_def)
  show ?thesis
    using m s by (simp add: callbackTransactionStatus_def)
qed

text \<open>
  An instance: the gateway reports the code \<open>8\<close> for the pending payment, and the step
  of the worker leaves the store as it is and counts the payment as skipped.
\<close>

theorem mapGatewayStatusToLocal_table_witness:
  "queryPaymentByTxnRef exampleService unknownCodeGateway (merchantTxnRef pendingPayment)
       [pendingPayment]
     = Inr [(''vpc_TxnResponseCode'', JStr ''8'')]
   \<and> map_of [(''vpc_TxnResponseCode'', JStr ''8'')] ''vpc_TxnResponseCode'' = Some (JStr ''8'')
   \<and> ''8'' \<notin> set [''0'', ''1'', ''2'', ''3'', ''4'', ''5'', ''6'', ''7'']
   \<and> mapGatewayStatusToLocal (Some (JStr ''8'')) = None
   \<and> callbackTransactionStatus (Some (Some ''8'')) = FAILED
   \<and> syncTransaction exampleService unknownCodeGateway 360000 pendingPayment
         ([pendingPayment],
          \<lparr>processedCount = 0, updatedCount = 0, errorCount = 0, skippedCount = 0,
            processingTime = 0, errors = []\<rparr>)
       = ([pendingPayment],
          \<lparr>processedCount = 1, updatedCount = 0, errorCount = 0, skippedCount = 1,
            processingTime = 0, errors = []\<rparr>)"
proof -
  have q: "queryPaymentByTxnRef exampleService unknownCodeGateway (merchantTxnRef pendingPayment)
       [pendingPayment]
     = Inr [(''vpc_TxnResponseCode'', JStr ''8'')]"
    by (simp add: queryPaymentByTxnRef_def trim_example findOneByRef_def pendingPayment_def
        Let_def makeApiCall_def makeApiCallTry_def axiosPost_def unknownCodeGateway_def
        responseOfBody_def processQueryResponse_def)
  show ?thesis
    using q
      mapGatewayStatusToLocal_table [of "''8''" exampleService unknownCodeGateway pendingPayment
        "[pendingPayment]" "[(''vpc_TxnResponseCode'', JStr ''8'')]" 360000
        "\<lparr>processedCount = 0, updatedCount = 0, errorCount = 0, skippedCount = 0,
          processingTime = 0, errors = []\<rparr>"]
    by simp
qed

text \<open>
  The claim as stated fails at the code \<open>8\<close>: the worker has no status for it,
  \<open>processPaymentResponse\<close> sets failed.
\<close>

theorem mapGatewayStatusToLocal_differs:
  "mapGatewayStatusToLocal (Some (JStr ''8'')) = None
   \<and> callbackTransactionStatus (Some (Some ''8'')) = FAILED
   \<and> mapGatewayStatusToLocal (Some (JStr ''8''))
       \<noteq> Some (callbackTransactionStatus (Some (Some ''8'')))"
  by (simp add: mapGatewayStatusToLocal_def callbackTransactionStatus_def)

end
